theory Spec2Isabelle
  imports Main "HOL-Library.Sublist" "HOL-Library.AList"
begin

section \<open>Strings\<close>

text \<open>
  A JavaScript string is modelled as a \<^typ>\<open>string\<close>: one \<^typ>\<open>char\<close> per code unit,
  for code units below 256 (ASCII and Latin-1). The built-in string methods that
  \<^verbatim>\<open>script-public.js\<close> and \<^verbatim>\<open>script-private.js\<close> call are written out for that
  range.
\<close>

definition upper_chars :: string where
  "upper_chars = ''ABCDEFGHIJKLMNOPQRSTUVWXYZ'' @
     [CHR 0xC0, CHR 0xC1, CHR 0xC2, CHR 0xC3, CHR 0xC4, CHR 0xC5, CHR 0xC6, CHR 0xC7,
      CHR 0xC8, CHR 0xC9, CHR 0xCA, CHR 0xCB, CHR 0xCC, CHR 0xCD, CHR 0xCE, CHR 0xCF,
      CHR 0xD0, CHR 0xD1, CHR 0xD2, CHR 0xD3, CHR 0xD4, CHR 0xD5, CHR 0xD6,
      CHR 0xD8, CHR 0xD9, CHR 0xDA, CHR 0xDB, CHR 0xDC, CHR 0xDD, CHR 0xDE]"

definition lower_chars :: string where
  "lower_chars = ''abcdefghijklmnopqrstuvwxyz'' @
     [CHR 0xE0, CHR 0xE1, CHR 0xE2, CHR 0xE3, CHR 0xE4, CHR 0xE5, CHR 0xE6, CHR 0xE7,
      CHR 0xE8, CHR 0xE9, CHR 0xEA, CHR 0xEB, CHR 0xEC, CHR 0xED, CHR 0xEE, CHR 0xEF,
      CHR 0xF0, CHR 0xF1, CHR 0xF2, CHR 0xF3, CHR 0xF4, CHR 0xF5, CHR 0xF6,
      CHR 0xF8, CHR 0xF9, CHR 0xFA, CHR 0xFB, CHR 0xFC, CHR 0xFD, CHR 0xFE]"

definition lower_char :: "char \<Rightarrow> char" where
  "lower_char c = (case map_of (zip upper_chars lower_chars) c of None \<Rightarrow> c | Some d \<Rightarrow> d)"

text \<open>\<^verbatim>\<open>s.toLowerCase()\<close>: code unit by code unit in this range.\<close>

definition toLowerCase :: "string \<Rightarrow> string" where
  "toLowerCase s = map lower_char s"

text \<open>
  The white space and line terminators that \<^verbatim>\<open>trim\<close> and \<^verbatim>\<open>parseInt\<close> skip:
  tab, line feed, vertical tab, form feed, carriage return, space, no-break space.
\<close>

definition is_space :: "char \<Rightarrow> bool" where
  "is_space c = (c \<in> set [CHR 0x09, CHR 0x0A, CHR 0x0B, CHR 0x0C, CHR 0x0D, CHR 0x20, CHR 0xA0])"

text \<open>\<^verbatim>\<open>s.trim()\<close>\<close>

definition trim :: "string \<Rightarrow> string" where
  "trim s = rev (dropWhile is_space (rev (dropWhile is_space s)))"

text \<open>\<^verbatim>\<open>s.startsWith(t)\<close>\<close>

definition startsWith :: "string \<Rightarrow> string \<Rightarrow> bool" where
  "startsWith s t = prefix t s"

text \<open>\<^verbatim>\<open>s.includes(t)\<close>: some position of \<open>s\<close> starts an occurrence of \<open>t\<close>.\<close>

fun str_includes :: "string \<Rightarrow> string \<Rightarrow> bool" where
  "str_includes [] t = (t = [])"
| "str_includes (c # cs) t = (prefix t (c # cs) \<or> str_includes cs t)"

text \<open>
  \<^verbatim>\<open>s.split(/[\r\n]+/)\<close>: the pieces between the maximal runs of carriage returns and
  line feeds. A run at the start or at the end of \<open>s\<close> leaves an empty piece there.
\<close>

definition is_crlf :: "char \<Rightarrow> bool" where
  "is_crlf c = (c = CHR 0x0D \<or> c = CHR 0x0A)"

function split_lines :: "string \<Rightarrow> string list" where
  "split_lines [] = [[]]"
| "split_lines (c # cs) =
     (if is_crlf c then [] # split_lines (dropWhile is_crlf cs)
      else (case split_lines cs of
              [] \<Rightarrow> [[c]]
            | l # ls \<Rightarrow> (c # l) # ls))"
  by pat_completeness auto
termination
  by (relation "measure length") (auto simp: length_dropWhile_le less_Suc_eq_le)

declare split_lines.simps [simp del]

text \<open>\<^verbatim>\<open>lines.join(sep)\<close>\<close>

fun join :: "string \<Rightarrow> string list \<Rightarrow> string" where
  "join sep [] = []"
| "join sep [l] = l"
| "join sep (l # l' # ls) = l @ sep @ join sep (l' # ls)"

text \<open>\<^verbatim>\<open>String(n)\<close> for a non-negative integer: its decimal digits.\<close>

definition digit_char :: "nat \<Rightarrow> char" where
  "digit_char d = ''0123456789'' ! d"

function String_nat :: "nat \<Rightarrow> string" where
  "String_nat n = (if n < 10 then [digit_char n] else String_nat (n div 10) @ [digit_char (n mod 10)])"
  by pat_completeness auto
termination
  by (relation "measure id") auto

declare String_nat.simps [simp del]

text \<open>
  \<^verbatim>\<open>parseInt(s, 10)\<close>: leading white space is skipped, then an optional sign, then the
  longest run of decimal digits is read and whatever follows it is ignored. No digit
  there gives NaN, which is \<open>None\<close> here.
\<close>

definition is_digit :: "char \<Rightarrow> bool" where
  "is_digit c = (c \<in> set ''0123456789'')"

definition digit_val :: "char \<Rightarrow> nat" where
  "digit_val c = (case map_of (zip ''0123456789'' [0 ..< 10]) c of None \<Rightarrow> 0 | Some d \<Rightarrow> d)"

definition digits_val :: "string \<Rightarrow> nat" where
  "digits_val ds = foldl (\<lambda>acc c. 10 * acc + digit_val c) 0 ds"

definition parseInt :: "string \<Rightarrow> int option" where
  "parseInt inputString =
     (let S = dropWhile is_space inputString;
          sign = (if S \<noteq> [] \<and> hd S = CHR ''-'' then - 1 else 1 :: int);
          S' = (if S \<noteq> [] \<and> (hd S = CHR ''+'' \<or> hd S = CHR ''-'') then tl S else S);
          Z = takeWhile is_digit S'
      in if Z = [] then None else Some (sign * int (digits_val Z)))"

section \<open>Data loading\<close>

text \<open>
  What \<^verbatim>\<open>response.json()\<close> can resolve to. The loader hands the parsed document on
  without looking into it, so numbers are kept as integers.
\<close>

datatype json =
    JNull
  | JBool bool
  | JNumber int
  | JString string
  | JArray "json list"
  | JObject "(string \<times> json) list"

text \<open>
  The browser's side of \<^verbatim>\<open>fetch\<close>: the promise is rejected (a network error), or it
  resolves to a response with its \<^verbatim>\<open>ok\<close> flag, its status, and a body that parses
  as JSON (\<open>Some\<close>) or does not (\<open>None\<close>: \<^verbatim>\<open>response.json()\<close> rejects).
\<close>

datatype response = Response (ok: bool) (status: nat) (response_json: "json option")

datatype fetch_result = Rejected | Resolved response

datatype error =
    NetworkError
  | StatusError string
  | ParseError

text \<open>The body of the \<^verbatim>\<open>try\<close> block of \<^verbatim>\<open>loadDataFromFile\<close>: every throw is an \<open>Inl\<close>.\<close>

definition load_try :: "(string \<Rightarrow> fetch_result) \<Rightarrow> string \<Rightarrow> error + json" where
  "load_try fetch dataFile =
     (case fetch dataFile of
        Rejected \<Rightarrow> Inl NetworkError
      | Resolved response \<Rightarrow>
          if \<not> ok response
          then Inl (StatusError (''Could not find or load '' @ dataFile @ ''. Status: ''
                      @ String_nat (status response)))
          else (case response_json response of
                  None \<Rightarrow> Inl ParseError
                | Some v \<Rightarrow> Inr v))"

definition load_alert :: "string \<Rightarrow> string" where
  "load_alert dataFile = ''Could not load data from '' @ [CHR 0x27] @ dataFile @ [CHR 0x27]
     @ ''. Please ensure the file exists and is accessible. The application may not work correctly.''"

text \<open>
  What one call of \<^verbatim>\<open>loadDataFromFile\<close> does: the completion of the async function
  (\<open>Inl\<close> would be an exception leaving it, \<open>Inr\<close> the value it resolves to), what it
  logged on the console and the alerts it showed.
\<close>

record load_outcome =
  completion :: "error + json"
  console_errors :: "error list"
  load_alerts :: "string list"

definition loadDataFromFile :: "(string \<Rightarrow> fetch_result) \<Rightarrow> string \<Rightarrow> load_outcome" where
  "loadDataFromFile fetch dataFile =
     (case load_try fetch dataFile of
        Inr v \<Rightarrow> \<lparr>completion = Inr v, console_errors = [], load_alerts = []\<rparr>
      | Inl e \<Rightarrow> \<lparr>completion = Inr (JArray []), console_errors = [e],
                  load_alerts = [load_alert dataFile]\<rparr>)"

section \<open>Rows, cells and the page state\<close>

text \<open>
  A row is a JavaScript object whose property values are strings. \<open>props\<close> lists its
  properties in creation order; a key that is not listed reads as \<^verbatim>\<open>undefined\<close>.
  \<open>rid\<close> is the identity of the object: \<^verbatim>\<open>currentData.indexOf(rowData)\<close> compares
  objects by identity, so two rows with equal properties are still two rows. Neither
  script writes to a row once it is stored in \<^verbatim>\<open>currentData\<close> (the editor replaces
  rows by new objects), so an object is its identity together with its properties.
\<close>

datatype row = Row (rid: nat) (props: "(string \<times> string) list")

text \<open>A value that is a string or \<^verbatim>\<open>undefined\<close> (\<open>None\<close>).\<close>

type_synonym jsval = "string option"

text \<open>\<^verbatim>\<open>String(v)\<close>, also the property key that \<^verbatim>\<open>obj[v]\<close> uses.\<close>

definition ToString :: "jsval \<Rightarrow> string" where
  "ToString v = (case v of None \<Rightarrow> ''undefined'' | Some s \<Rightarrow> s)"

text \<open>\<^verbatim>\<open>v || ''\<close>: \<^verbatim>\<open>undefined\<close> and the empty string are the falsy values here.\<close>

definition or_empty :: "jsval \<Rightarrow> string" where
  "or_empty v = (case v of None \<Rightarrow> [] | Some s \<Rightarrow> if s = [] then [] else s)"

text \<open>\<^verbatim>\<open>columnHeaders[index]\<close>\<close>

definition header_at :: "string list \<Rightarrow> nat \<Rightarrow> jsval" where
  "header_at hs index = (if index < length hs then Some (hs ! index) else None)"

text \<open>\<^verbatim>\<open>row[header]\<close>\<close>

definition get_prop :: "row \<Rightarrow> jsval \<Rightarrow> jsval" where
  "get_prop r header = map_of (props r) (ToString header)"

text \<open>\<^verbatim>\<open>obj[header] = v\<close> on the property list of \<open>obj\<close>.\<close>

definition set_prop :: "jsval \<Rightarrow> string \<Rightarrow> (string \<times> string) list \<Rightarrow> (string \<times> string) list" where
  "set_prop header v ps = AList.update (ToString header) v ps"

record page_config =
  htmlFile :: string
  dataFile :: string
  headers :: "string list"

definition home :: page_config where
  "home = \<lparr>htmlFile = ''zosinfo.html'', dataFile = ''zosinfo-data.json'',
           headers = [''Vendor'', ''component/product'', ''type'', ''info'']\<rparr>"

definition linkedin :: page_config where
  "linkedin = \<lparr>htmlFile = ''linkedin.html'', dataFile = ''linkedin-data.json'',
               headers = [''Sno'', ''topic'', ''link'']\<rparr>"

text \<open>
  The child that \<^verbatim>\<open>formatCellContent\<close> or the edit-mode branch of
  \<^verbatim>\<open>renderTableBody\<close> leaves in a table cell. Styles are not modelled.
\<close>

datatype node =
    Anchor (href: string) (link_text: string) (target: string) (rel: string)
  | Pre string
  | Text string

fun textContent :: "node \<Rightarrow> string" where
  "textContent (Anchor h t g r) = t"
| "textContent (Pre content) = content"
| "textContent (Text t) = t"

datatype td = Td (child: node) (contentEditable: string)

text \<open>
  A body row of the table: its \<^verbatim>\<open>data-original-index\<close> attribute (a string when set),
  the index its click listener captured, and its cells.
\<close>

datatype tr = Tr (dataset_originalIndex: "string option") (listener_index: int) (cells: "td list")

text \<open>
  The page-scope variables of \<^verbatim>\<open>script-private.js\<close>, the parts of the document the
  handlers read and write (the values of the filter inputs, the rows of the table body),
  and what the page has shown the user (alerts, downloads as file name and content).
  \<open>nextId\<close> is the identity the next object literal \<^verbatim>\<open>{}\<close> gets. The public script
  is the same state with \<open>isEditMode\<close> always false.
\<close>

record state =
  config :: page_config
  currentData :: "row list"
  columnHeaders :: "string list"
  isEditMode :: bool
  selectedRowIndex :: int
  filterInputs :: "string list"
  tableBody :: "tr list"
  alerts :: "string list"
  downloads :: "(string \<times> string) list"
  nextId :: nat

section \<open>Table rendering\<close>

definition formatCellContent :: "string \<Rightarrow> node" where
  "formatCellContent cellValue =
     (if startsWith cellValue ''http://'' \<or> startsWith cellValue ''https://''
      then Anchor cellValue cellValue ''_blank'' ''noopener noreferrer''
      else if str_includes cellValue ''//'' \<and> str_includes cellValue [CHR 0x0A]
      then (let lines = split_lines cellValue;
                content = join [CHR 0x0A]
                  (List.map_filter
                     (\<lambda>line. if startsWith (trim line) ''// '' then None else Some line) lines)
            in Pre content)
      else Text cellValue)"

text \<open>\<^verbatim>\<open>currentData.indexOf(rowData)\<close>: the first position holding the same object, or -1.\<close>

fun indexOf_from :: "nat \<Rightarrow> row list \<Rightarrow> row \<Rightarrow> int" where
  "indexOf_from k [] rowData = - 1"
| "indexOf_from k (r # rs) rowData = (if rid r = rid rowData then int k else indexOf_from (Suc k) rs rowData)"

definition indexOf :: "row list \<Rightarrow> row \<Rightarrow> int" where
  "indexOf rs rowData = indexOf_from 0 rs rowData"

text \<open>One cell of \<^verbatim>\<open>renderTableBody\<close>, for the column \<open>header\<close>.\<close>

definition render_cell :: "bool \<Rightarrow> row \<Rightarrow> string \<Rightarrow> td" where
  "render_cell editing rowData header =
     (let cellValue = or_empty (get_prop rowData (Some header))
      in if editing then Td (Text cellValue) ''true''
         else Td (formatCellContent cellValue) ''inherit'')"

definition render_row :: "bool \<Rightarrow> string list \<Rightarrow> nat \<Rightarrow> row \<Rightarrow> tr" where
  "render_row editing hs originalIndex rowData =
     Tr (Some (String_nat originalIndex)) (int originalIndex)
        (map (render_cell editing rowData) hs)"

definition renderTableBody :: "state \<Rightarrow> row list \<Rightarrow> state" where
  "renderTableBody st data =
     st\<lparr>tableBody :=
          List.map_filter
            (\<lambda>rowData. let originalIndex = indexOf (currentData st) rowData
                       in if originalIndex = - 1 then None
                          else Some (render_row (isEditMode st) (columnHeaders st)
                                       (nat originalIndex) rowData))
            data\<rparr>"

text \<open>\<^verbatim>\<open>renderTableHeaders\<close>: one empty filter input per column.\<close>

definition renderTableHeaders :: "state \<Rightarrow> state" where
  "renderTableHeaders st = st\<lparr>filterInputs := map (\<lambda>_. []) (columnHeaders st)\<rparr>"

section \<open>Filtering\<close>

definition filterValues :: "state \<Rightarrow> string list" where
  "filterValues st = map toLowerCase (filterInputs st)"

text \<open>The callback of \<^verbatim>\<open>currentData.filter\<close> in \<^verbatim>\<open>filterTable\<close>.\<close>

definition row_matches :: "string list \<Rightarrow> string list \<Rightarrow> row \<Rightarrow> bool" where
  "row_matches hs fvs r =
     list_all
       (\<lambda>(filterValue, index).
          let header = header_at hs index;
              cellValue = toLowerCase (ToString (get_prop r header))
          in str_includes cellValue filterValue)
       (zip fvs [0 ..< length fvs])"

definition filteredData :: "state \<Rightarrow> row list" where
  "filteredData st = filter (row_matches (columnHeaders st) (filterValues st)) (currentData st)"

definition filterTable :: "state \<Rightarrow> state" where
  "filterTable st = renderTableBody st (filteredData st)"

text \<open>The user types \<open>s\<close> into the filter input of column \<open>k\<close>; its keyup listener runs.\<close>

definition type_filter :: "nat \<Rightarrow> string \<Rightarrow> state \<Rightarrow> state" where
  "type_filter k s st = filterTable (st\<lparr>filterInputs := (filterInputs st)[k := s]\<rparr>)"

section \<open>The editor\<close>


definition alert :: "string \<Rightarrow> state \<Rightarrow> state" where
  "alert msg st = st\<lparr>alerts := alerts st @ [msg]\<rparr>"




definition download_alert :: "string \<Rightarrow> string" where
  "download_alert name = ''Your data has been prepared for download. Please save the new ''
     @ [CHR 0x27] @ name @ [CHR 0x27]
     @ '' file, replacing the old one in your project folder.''"

text \<open>\<^verbatim>\<open>cells.forEach(cell => cell.contentEditable = flag)\<close> over the whole table body.\<close>

definition set_contentEditable :: "string \<Rightarrow> tr list \<Rightarrow> tr list" where
  "set_contentEditable flag rows =
     map (\<lambda>row. Tr (dataset_originalIndex row) (listener_index row)
                   (map (\<lambda>cell. Td (child cell) flag) (cells row))) rows"







subsection \<open>Saving\<close>

text \<open>
  \<^verbatim>\<open>JSON.stringify(data, null, 2)\<close> for an array of objects with string values. The
  properties are written in the order of \<open>props\<close>, which is the order JavaScript
  enumerates them in unless a key is an array index; the configured column names are not.
\<close>

definition hex_digit :: "nat \<Rightarrow> char" where
  "hex_digit d = ''0123456789abcdef'' ! d"

definition json_escape :: "char \<Rightarrow> string" where
  "json_escape c =
     (if c = CHR 0x08 then [CHR 0x5C, CHR ''b'']
      else if c = CHR 0x09 then [CHR 0x5C, CHR ''t'']
      else if c = CHR 0x0A then [CHR 0x5C, CHR ''n'']
      else if c = CHR 0x0C then [CHR 0x5C, CHR ''f'']
      else if c = CHR 0x0D then [CHR 0x5C, CHR ''r'']
      else if c = CHR 0x22 then [CHR 0x5C, CHR 0x22]
      else if c = CHR 0x5C then [CHR 0x5C, CHR 0x5C]
      else if (of_char c :: nat) < 32
      then [CHR 0x5C, CHR ''u'', CHR ''0'', CHR ''0'',
            hex_digit ((of_char c :: nat) div 16), hex_digit ((of_char c :: nat) mod 16)]
      else [c])"

definition json_quote :: "string \<Rightarrow> string" where
  "json_quote s = [CHR 0x22] @ concat (map json_escape s) @ [CHR 0x22]"

definition stringify_property :: "string \<times> string \<Rightarrow> string" where
  "stringify_property kv = ''    '' @ json_quote (fst kv) @ '': '' @ json_quote (snd kv)"

definition stringify_row :: "row \<Rightarrow> string" where
  "stringify_row r =
     (if props r = [] then ''{}''
      else ''{'' @ [CHR 0x0A] @ join ('','' @ [CHR 0x0A]) (map stringify_property (props r))
           @ [CHR 0x0A] @ ''  }'')"

definition JSON_stringify :: "row list \<Rightarrow> string" where
  "JSON_stringify data =
     (if data = [] then ''[]''
      else ''['' @ [CHR 0x0A] @ join ('','' @ [CHR 0x0A]) (map (\<lambda>r. ''  '' @ stringify_row r) data)
           @ [CHR 0x0A] @ '']'')"

definition downloadDataAsFile :: "row list \<Rightarrow> state \<Rightarrow> state" where
  "downloadDataAsFile data st =
     (let jsonString = JSON_stringify data;
          download = dataFile (config st)
      in alert (download_alert download)
           (st\<lparr>downloads := downloads st @ [(download, jsonString)]\<rparr>))"

text \<open>
  The object \<^verbatim>\<open>handleEscape\<close> builds from one body row: cell \<open>cellIndex\<close> gives the
  property \<^verbatim>\<open>columnHeaders[cellIndex]\<close>, its value the trimmed text of the cell.
\<close>

definition newRowData :: "string list \<Rightarrow> td list \<Rightarrow> (string \<times> string) list" where
  "newRowData hs rowCells =
     fold (\<lambda>(cell, cellIndex) ps.
             set_prop (header_at hs cellIndex) (trim (textContent (child cell))) ps)
          (zip rowCells [0 ..< length rowCells]) []"

text \<open>
  The map \<^verbatim>\<open>domChanges\<close>, filled row by row. Its keys are what \<^verbatim>\<open>parseInt\<close>
  returns (\<open>None\<close> is NaN); a later row with the same key replaces an earlier one. A row
  whose \<^verbatim>\<open>data-original-index\<close> is missing or empty is skipped.
\<close>

definition domChanges_step ::
  "string list \<Rightarrow> tr \<Rightarrow> (int option \<rightharpoonup> row) \<times> nat \<Rightarrow> (int option \<rightharpoonup> row) \<times> nat" where
  "domChanges_step hs row acc =
     (case dataset_originalIndex row of
        None \<Rightarrow> acc
      | Some s \<Rightarrow>
          if s = [] then acc
          else (let originalIndex = parseInt s
                in ((fst acc)(originalIndex \<mapsto> Row (snd acc) (newRowData hs (cells row))),
                    Suc (snd acc))))"

definition domChanges :: "state \<Rightarrow> (int option \<rightharpoonup> row) \<times> nat" where
  "domChanges st = fold (domChanges_step (columnHeaders st)) (tableBody st) (Map.empty, nextId st)"


text \<open>The \<^verbatim>\<open>map\<close> stage of \<^verbatim>\<open>updatedData\<close>, before the empty rows are filtered out.\<close>

definition reconciled :: "state \<Rightarrow> row list" where
  "reconciled st =
     map (\<lambda>(originalRow, index).
            case fst (domChanges st) (Some (int index)) of
              Some changed \<Rightarrow> changed
            | None \<Rightarrow> originalRow)
         (zip (currentData st) [0 ..< length (currentData st)])"



subsection \<open>Deleting\<close>



subsection \<open>Loading a page\<close>

text \<open>
  The rows of a loaded document: an array of objects whose values are strings, each
  element a new object. Anything else is outside this model of rows (\<open>None\<close>).
\<close>

fun string_of_json :: "json \<Rightarrow> string option" where
  "string_of_json (JString s) = Some s"
| "string_of_json _ = None"

fun props_of_json :: "json \<Rightarrow> (string \<times> string) list option" where
  "props_of_json (JObject kvs) =
     (if list_all (\<lambda>kv. string_of_json (snd kv) \<noteq> None) kvs
      then Some (map (\<lambda>kv. (fst kv, ToString (string_of_json (snd kv)))) kvs)
      else None)"
| "props_of_json _ = None"

fun rows_of_json :: "json \<Rightarrow> (string \<times> string) list list option" where
  "rows_of_json (JArray vs) =
     (if list_all (\<lambda>v. props_of_json v \<noteq> None) vs
      then Some (map (\<lambda>v. case props_of_json v of Some ps \<Rightarrow> ps | None \<Rightarrow> []) vs)
      else None)"
| "rows_of_json _ = None"

text \<open>
  The state \<^verbatim>\<open>initializePage\<close> leaves when the loader returned the rows \<open>pss\<close> for
  the page \<open>cfg\<close>: view mode, nothing selected, empty filters, every row rendered.
\<close>

definition start_state :: "page_config \<Rightarrow> (string \<times> string) list list \<Rightarrow> string list \<Rightarrow> state" where
  "start_state cfg pss shown =
     (let st = \<lparr>config = cfg,
                currentData = map (\<lambda>(i, ps). Row i ps) (zip [0 ..< length pss] pss),
                columnHeaders = headers cfg,
                isEditMode = False,
                selectedRowIndex = - 1,
                filterInputs = [],
                tableBody = [],
                alerts = shown,
                downloads = [],
                nextId = length pss\<rparr>;
          st' = renderTableHeaders st
      in renderTableBody st' (currentData st'))"

definition initializePage :: "(string \<Rightarrow> fetch_result) \<Rightarrow> string \<Rightarrow> state option" where
  "initializePage fetch selectedPage =
     (let cfg = (if str_includes selectedPage ''linkedin.html'' then linkedin else home);
          loaded = loadDataFromFile fetch (dataFile cfg)
      in case completion loaded of
           Inl e \<Rightarrow> None
         | Inr v \<Rightarrow> map_option (\<lambda>pss. start_state cfg pss (load_alerts loaded)) (rows_of_json v))"

section \<open>Example inputs\<close>

text \<open>
  A server that has the home page's data, answers 404 for the other page's data and is
  unreachable for anything else; and one whose home data file holds an object.
\<close>

definition example_fetch :: "string \<Rightarrow> fetch_result" where
  "example_fetch name =
     (if name = ''zosinfo-data.json''
      then Resolved (Response True 200
             (Some (JArray [JObject [(''Vendor'', JString ''IBM''), (''type'', JString ''OS'')]])))
      else if name = ''linkedin-data.json''
      then Resolved (Response False 404 None)
      else Rejected)"

definition object_fetch :: "string \<Rightarrow> fetch_result" where
  "object_fetch name =
     Resolved (Response True 200 (Some (JObject [(''Vendor'', JString ''IBM'')])))"

text \<open>
  The home page loaded with two rows, the second of which has only a vendor; the same
  page after the password was accepted.
\<close>

definition example_rows :: "(string \<times> string) list list" where
  "example_rows =
     [[(''Vendor'', ''IBM Corp''), (''component/product'', ''z/OS''), (''type'', ''OS''),
       (''info'', ''https://www.ibm.com/docs'')],
      [(''Vendor'', ''BMC'')]]"

definition example_state :: state where
  "example_state = start_state home example_rows []"




section \<open>Reachable states and what they keep\<close>


text \<open>
  The rows of \<^verbatim>\<open>currentData\<close> are distinct objects, all created before \<open>nextId\<close>, and
  the columns are those of one of the two configured pages.
\<close>

definition data_ok :: "state \<Rightarrow> bool" where
  "data_ok st \<longleftrightarrow>
     distinct (map rid (currentData st)) \<and>
     (\<forall>r \<in> set (currentData st). rid r < nextId st) \<and>
     columnHeaders st = headers (config st) \<and>
     (config st = home \<or> config st = linkedin)"

text \<open>
  The body rows carry the indices \<open>js\<close>, in this order: distinct positions of
  \<^verbatim>\<open>currentData\<close>, written in decimal in the attribute and captured by the click
  listener, and every body row has one cell per column.
\<close>

definition tracks :: "state \<Rightarrow> nat list \<Rightarrow> bool" where
  "tracks st js \<longleftrightarrow>
     distinct js \<and> (\<forall>j \<in> set js. j < length (currentData st)) \<and>
     map dataset_originalIndex (tableBody st) = map (\<lambda>j. Some (String_nat j)) js \<and>
     map listener_index (tableBody st) = map int js \<and>
     (\<forall>d \<in> set (tableBody st). length (cells d) = length (columnHeaders st))"

definition consistent :: "state \<Rightarrow> bool" where
  "consistent st \<longleftrightarrow> data_ok st \<and> (\<exists>js. tracks st js)"





section \<open>The data loader\<close>

lemma load_try_cases:
  "load_try fetch name =
     (case fetch name of
        Rejected \<Rightarrow> Inl NetworkError
      | Resolved r \<Rightarrow>
          if ok r then (case response_json r of None \<Rightarrow> Inl ParseError | Some v \<Rightarrow> Inr v)
          else Inl (StatusError (''Could not find or load '' @ name @ ''. Status: ''
                      @ String_nat (status r))))"
  by (simp add: load_try_def split: fetch_result.splits)

text \<open>
  C6. Whatever the resource name and whatever the fetch does, \<^verbatim>\<open>loadDataFromFile\<close>
  completes with a value and never with an exception. When the fetch resolves with
  \<^verbatim>\<open>ok\<close> set and a body that parses, that value is the parsed document and the user
  sees no alert. When the fetch is rejected, or the status is not a success, or the body
  does not parse, the value is the empty array, the error is logged and the user is
  alerted once.
\<close>

theorem loadDataFromFile_recovers:
  "(\<exists>v. completion (loadDataFromFile fetch name) = Inr v) \<and>
   (\<forall>r v. fetch name = Resolved r \<and> ok r \<and> response_json r = Some v \<longrightarrow>
      completion (loadDataFromFile fetch name) = Inr v \<and>
      load_alerts (loadDataFromFile fetch name) = []) \<and>
   (fetch name = Rejected \<or>
    (\<exists>r. fetch name = Resolved r \<and> (\<not> ok r \<or> response_json r = None)) \<longrightarrow>
      completion (loadDataFromFile fetch name) = Inr (JArray []) \<and>
      length (console_errors (loadDataFromFile fetch name)) = 1 \<and>
      load_alerts (loadDataFromFile fetch name) = [load_alert name])"
proof (cases "fetch name")
  case Rejected
  then show ?thesis
    by (simp add: loadDataFromFile_def load_try_cases)
next
  case (Resolved r)
  show ?thesis
  proof (cases "ok r")
    case False
    with Resolved show ?thesis
      by (simp add: loadDataFromFile_def load_try_cases)
  next
    case True
    with Resolved show ?thesis
      by (cases "response_json r") (simp_all add: loadDataFromFile_def load_try_cases)
  qed
qed

theorem loadDataFromFile_recovers_witness:
  "completion (loadDataFromFile example_fetch ''zosinfo-data.json'') =
     Inr (JArray [JObject [(''Vendor'', JString ''IBM''), (''type'', JString ''OS'')]]) \<and>
   load_alerts (loadDataFromFile example_fetch ''zosinfo-data.json'') = [] \<and>
   completion (loadDataFromFile example_fetch ''linkedin-data.json'') = Inr (JArray []) \<and>
   load_alerts (loadDataFromFile example_fetch ''linkedin-data.json'') =
     [load_alert ''linkedin-data.json''] \<and>
   completion (loadDataFromFile example_fetch ''missing.json'') = Inr (JArray []) \<and>
   load_alerts (loadDataFromFile example_fetch ''missing.json'') = [load_alert ''missing.json'']"
  using loadDataFromFile_recovers [of example_fetch "''zosinfo-data.json''"]
    loadDataFromFile_recovers [of example_fetch "''linkedin-data.json''"]
    loadDataFromFile_recovers [of example_fetch "''missing.json''"]
  by (simp add: example_fetch_def)

text \<open>
  C10. When the fetch resolves with \<^verbatim>\<open>ok\<close> set and the body parses to a document that
  is not an array, \<^verbatim>\<open>loadDataFromFile\<close> returns that document as it is, not the empty
  array, and reports nothing: the success path does not look at the document.
\<close>

theorem loadDataFromFile_non_array:
  assumes "fetch name = Resolved r" and "ok r" and "response_json r = Some v"
    and "\<forall>vs. v \<noteq> JArray vs"
  shows "completion (loadDataFromFile fetch name) = Inr v \<and>
         completion (loadDataFromFile fetch name) \<noteq> Inr (JArray []) \<and>
         console_errors (loadDataFromFile fetch name) = [] \<and>
         load_alerts (loadDataFromFile fetch name) = []"
  using assms by (simp add: loadDataFromFile_def load_try_cases)

theorem loadDataFromFile_non_array_witness:
  "completion (loadDataFromFile object_fetch ''zosinfo-data.json'') =
     Inr (JObject [(''Vendor'', JString ''IBM'')]) \<and>
   completion (loadDataFromFile object_fetch ''zosinfo-data.json'') \<noteq> Inr (JArray []) \<and>
   console_errors (loadDataFromFile object_fetch ''zosinfo-data.json'') = [] \<and>
   load_alerts (loadDataFromFile object_fetch ''zosinfo-data.json'') = []"
  by (rule loadDataFromFile_non_array
        [of object_fetch _ "Response True 200 (Some (JObject [(''Vendor'', JString ''IBM'')]))"])
     (simp_all add: object_fetch_def)

section \<open>The cell classifier\<close>

lemma str_includes_sublist: "str_includes s t = sublist t s"
  by (induction s) (auto simp: sublist_Cons_right)

lemma sublist_single: "sublist [c] s = (c \<in> set s)"
  by (induction s) (auto simp: sublist_Cons_right)

lemma map_filter_drop:
  "List.map_filter (\<lambda>x. if P x then None else Some x) xs = filter (\<lambda>x. \<not> P x) xs"
  by (induction xs) (auto simp: List.map_filter_simps)

lemma split_lines_no_crlf: "\<forall>l \<in> set (split_lines s). \<forall>c \<in> set l. \<not> is_crlf c"
proof (induction s rule: split_lines.induct)
  case 1
  then show ?case by (simp add: split_lines.simps)
next
  case (2 c cs)
  show ?case
  proof (cases "is_crlf c")
    case True
    with 2 show ?thesis by (simp add: split_lines.simps)
  next
    case False
    with 2 show ?thesis by (cases "split_lines cs") (auto simp: split_lines.simps)
  qed
qed

lemma filter_dropWhile_crlf:
  "filter (\<lambda>c. \<not> is_crlf c) (dropWhile is_crlf cs) = filter (\<lambda>c. \<not> is_crlf c) cs"
  by (induction cs) auto

lemma concat_split_lines: "concat (split_lines s) = filter (\<lambda>c. \<not> is_crlf c) s"
proof (induction s rule: split_lines.induct)
  case 1
  then show ?case by (simp add: split_lines.simps)
next
  case (2 c cs)
  show ?case
  proof (cases "is_crlf c")
    case True
    with 2 show ?thesis by (simp add: filter_dropWhile_crlf split_lines.simps)
  next
    case False
    with 2 show ?thesis by (cases "split_lines cs") (auto simp: split_lines.simps)
  qed
qed

text \<open>
  C4. \<^verbatim>\<open>formatCellContent\<close> tries its rules in order and the first that applies decides.
  A value that begins with \<^verbatim>\<open>http://\<close> or \<^verbatim>\<open>https://\<close> becomes a link that opens in a
  new context, with the value as its address and as its text. Otherwise a value that
  contains \<^verbatim>\<open>//\<close> and a line feed is split at its runs of line breaks (no piece holds a
  line break, and the pieces together are the value without its line breaks), the lines
  whose trimmed form begins with \<^verbatim>\<open>// \<close> are dropped, and the others are joined by line
  feeds in a preformatted block. Otherwise the value is shown as plain text, and a column
  the row has no key for is shown as the empty text. The value
  \<^verbatim>\<open>"line1\n// comment\nline2"\<close> is shown as the two lines \<^verbatim>\<open>line1\<close> and \<^verbatim>\<open>line2\<close>.
\<close>

theorem formatCellContent_classifier:
  "(prefix ''http://'' v \<or> prefix ''https://'' v \<longrightarrow>
      formatCellContent v = Anchor v v ''_blank'' ''noopener noreferrer'') \<and>
   (\<not> prefix ''http://'' v \<and> \<not> prefix ''https://'' v \<and> sublist ''//'' v \<and> CHR 0x0A \<in> set v \<longrightarrow>
      formatCellContent v =
        Pre (join ''\<newline>'' (filter (\<lambda>line. \<not> prefix ''// '' (trim line)) (split_lines v)))) \<and>
   (\<not> prefix ''http://'' v \<and> \<not> prefix ''https://'' v \<and> \<not> (sublist ''//'' v \<and> CHR 0x0A \<in> set v) \<longrightarrow>
      formatCellContent v = Text v) \<and>
   (\<forall>line \<in> set (split_lines v). \<forall>c \<in> set line. c \<noteq> CHR 0x0A \<and> c \<noteq> CHR 0x0D) \<and>
   concat (split_lines v) = filter (\<lambda>c. c \<noteq> CHR 0x0A \<and> c \<noteq> CHR 0x0D) v \<and>
   (map_of (props r) header = None \<longrightarrow> render_cell False r header = Td (Text []) ''inherit'') \<and>
   formatCellContent ''line1\<newline>// comment\<newline>line2'' = Pre ''line1\<newline>line2'' \<and>
   split_lines ''line1\<newline>line2'' = [''line1'', ''line2'']"
proof -
  have link: "prefix ''http://'' v \<or> prefix ''https://'' v \<longrightarrow>
      formatCellContent v = Anchor v v ''_blank'' ''noopener noreferrer''"
    by (simp add: formatCellContent_def startsWith_def)
  have block: "\<not> prefix ''http://'' v \<and> \<not> prefix ''https://'' v \<and> sublist ''//'' v \<and> CHR 0x0A \<in> set v \<longrightarrow>
      formatCellContent v =
        Pre (join ''\<newline>'' (filter (\<lambda>line. \<not> prefix ''// '' (trim line)) (split_lines v)))"
    by (simp add: formatCellContent_def startsWith_def str_includes_sublist sublist_single
        map_filter_drop)
  have plain: "\<not> prefix ''http://'' v \<and> \<not> prefix ''https://'' v \<and> \<not> (sublist ''//'' v \<and> CHR 0x0A \<in> set v) \<longrightarrow>
      formatCellContent v = Text v"
    by (auto simp: formatCellContent_def startsWith_def str_includes_sublist sublist_single)
  have pieces: "\<forall>line \<in> set (split_lines v). \<forall>c \<in> set line. c \<noteq> CHR 0x0A \<and> c \<noteq> CHR 0x0D"
    using split_lines_no_crlf [of v] by (auto simp: is_crlf_def)
  have "(\<lambda>c. \<not> is_crlf c) = (\<lambda>c. c \<noteq> CHR 0x0A \<and> c \<noteq> CHR 0x0D)"
    by (auto simp: is_crlf_def)
  then have kept: "concat (split_lines v) = filter (\<lambda>c. c \<noteq> CHR 0x0A \<and> c \<noteq> CHR 0x0D) v"
    using concat_split_lines [of v] by simp
  have missing: "map_of (props r) header = None \<longrightarrow> render_cell False r header = Td (Text []) ''inherit''"
    by (simp add: render_cell_def get_prop_def ToString_def or_empty_def formatCellContent_def
        startsWith_def)
  have example: "formatCellContent ''line1\<newline>// comment\<newline>line2'' = Pre ''line1\<newline>line2''"
    by (simp add: formatCellContent_def startsWith_def is_crlf_def trim_def is_space_def
        List.map_filter_simps split_lines.simps)
  have shown: "split_lines ''line1\<newline>line2'' = [''line1'', ''line2'']"
    by (simp add: is_crlf_def split_lines.simps)
  from link block plain pieces kept missing example shown show ?thesis
    by (intro conjI)
qed

theorem formatCellContent_classifier_witness:
  "formatCellContent ''https://www.ibm.com/docs'' =
     Anchor ''https://www.ibm.com/docs'' ''https://www.ibm.com/docs'' ''_blank'' ''noopener noreferrer'' \<and>
   formatCellContent ''//STEP1 EXEC PGM=X\<newline>  // a comment\<newline>//DD1 DD DUMMY'' =
     Pre ''//STEP1 EXEC PGM=X\<newline>//DD1 DD DUMMY'' \<and>
   formatCellContent ''IBM Corp'' = Text ''IBM Corp'' \<and>
   render_cell False (Row 0 [(''Vendor'', ''IBM'')]) ''type'' = Td (Text []) ''inherit''"
proof -
  have link: "formatCellContent ''https://www.ibm.com/docs'' =
     Anchor ''https://www.ibm.com/docs'' ''https://www.ibm.com/docs'' ''_blank'' ''noopener noreferrer''"
    using formatCellContent_classifier [of "''https://www.ibm.com/docs''" "Row 0 []" "''''"]
    by simp
  have block: "formatCellContent ''//STEP1 EXEC PGM=X\<newline>  // a comment\<newline>//DD1 DD DUMMY'' =
     Pre ''//STEP1 EXEC PGM=X\<newline>//DD1 DD DUMMY''"
    using formatCellContent_classifier
        [of "''//STEP1 EXEC PGM=X\<newline>  // a comment\<newline>//DD1 DD DUMMY''" "Row 0 []" "''''"]
    by (simp add: trim_def is_space_def sublist_code is_crlf_def split_lines.simps)
  have plain: "formatCellContent ''IBM Corp'' = Text ''IBM Corp''"
    using formatCellContent_classifier [of "''IBM Corp''" "Row 0 []" "''''"]
    by (simp add: sublist_code)
  have missing: "render_cell False (Row 0 [(''Vendor'', ''IBM'')]) ''type'' = Td (Text []) ''inherit''"
    using formatCellContent_classifier [of "''''" "Row 0 [(''Vendor'', ''IBM'')]" "''type''"]
    by simp
  from link block plain missing show ?thesis
    by (intro conjI)
qed

section \<open>Filtering\<close>

lemma row_matches_iff:
  "row_matches hs fvs r \<longleftrightarrow>
     (\<forall>i < length fvs. sublist (fvs ! i) (toLowerCase (ToString (get_prop r (header_at hs i)))))"
  by (simp add: row_matches_def list_all_length str_includes_sublist)

text \<open>
  What \<^verbatim>\<open>filterTable\<close> keeps: the rows in which, for every filter input, the lower-case
  filter string occurs in the lower-case \<^verbatim>\<open>String(row[header])\<close>. For a key the row has,
  that is the cell value; an empty filter string occurs in every text.
\<close>

lemma filteredData_rows:
  "filteredData st =
     filter (\<lambda>r. \<forall>i < length (filterInputs st).
               sublist (toLowerCase (filterInputs st ! i))
                 (toLowerCase (ToString (get_prop r (header_at (columnHeaders st) i)))))
            (currentData st)"
  unfolding filteredData_def filterValues_def
  by (rule filter_cong) (simp_all add: row_matches_iff)

lemma ToString_present_key:
  "i < length hs \<Longrightarrow> map_of (props r) (hs ! i) = Some v \<Longrightarrow>
   ToString (get_prop r (header_at hs i)) = v"
  by (simp add: get_prop_def header_at_def ToString_def)

lemma ToString_missing_key:
  "i < length hs \<Longrightarrow> map_of (props r) (hs ! i) = None \<Longrightarrow>
   ToString (get_prop r (header_at hs i)) = ''undefined''"
  by (simp add: get_prop_def header_at_def ToString_def)










text \<open>
  C1. \<^verbatim>\<open>filterTable\<close> compares the filter string with \<^verbatim>\<open>String(row[header])\<close>, which
  for a row without the key is the text \<^verbatim>\<open>undefined\<close> and not the empty string that
  \<^verbatim>\<open>renderTableBody\<close> shows for it. With \<^verbatim>\<open>undef\<close> typed into the filter of the
  third column of the home page, the row that has no \<^verbatim>\<open>type\<close> key is the one that stays
  on display, with an empty cell in that column.
\<close>

theorem filterTable_missing_key:
  "tableBody (type_filter 2 ''undef'' example_state) =
     [Tr (Some ''1'') 1 [Td (Text ''BMC'') ''inherit'', Td (Text []) ''inherit'',
                         Td (Text []) ''inherit'', Td (Text []) ''inherit'']] \<and>
   filteredData (example_state\<lparr>filterInputs := ['''', '''', ''undef'', '''']\<rparr>) = [Row 1 [(''Vendor'', ''BMC'')]] \<and>
   map_of (props (Row 1 [(''Vendor'', ''BMC'')])) ''type'' = None \<and>
   \<not> sublist (toLowerCase ''undef'') (toLowerCase [])"
  by code_simp

section \<open>Deleting the selected row\<close>


lemma currentData_renderTableBody [simp]: "currentData (renderTableBody st data) = currentData st"
  by (simp add: renderTableBody_def)

lemma currentData_filterTable [simp]: "currentData (filterTable st) = currentData st"
  by (simp add: filterTable_def)

lemma selectedRowIndex_filterTable [simp]: "selectedRowIndex (filterTable st) = selectedRowIndex st"
  by (simp add: filterTable_def renderTableBody_def)

lemma alerts_filterTable [simp]: "alerts (filterTable st) = alerts st"
  by (simp add: filterTable_def renderTableBody_def)



section \<open>Adding rows\<close>










lemma alerts_renderTableBody [simp]: "alerts (renderTableBody st data) = alerts st"
  by (simp add: renderTableBody_def)




section \<open>Rendered rows and their positions\<close>

lemma digit_cases:
  "d < 10 \<Longrightarrow> d = 0 \<or> d = 1 \<or> d = 2 \<or> d = 3 \<or> d = 4 \<or> d = 5 \<or> d = 6 \<or> d = 7 \<or> d = 8 \<or> d = (9::nat)"
  by arith

lemma digit_char_digit: "d < 10 \<Longrightarrow> is_digit (digit_char d) \<and> digit_val (digit_char d) = d"
  by (drule digit_cases) (auto simp: digit_char_def is_digit_def digit_val_def upt_conv_Cons)

lemma digits_val_snoc: "digits_val (ds @ [c]) = 10 * digits_val ds + digit_val c"
  by (simp add: digits_val_def)

lemma String_nat_digits:
  "String_nat n \<noteq> [] \<and> (\<forall>c \<in> set (String_nat n). is_digit c) \<and> digits_val (String_nat n) = n"
proof (induction n rule: String_nat.induct)
  case (1 n)
  show ?case
  proof (cases "n < 10")
    case True
    then show ?thesis
      using digit_char_digit [of n] by (simp add: String_nat.simps [of n] digits_val_def)
  next
    case False
    with 1 digit_char_digit [of "n mod 10"] show ?thesis
      by (simp add: String_nat.simps [of n] digits_val_snoc)
  qed
qed



lemma String_nat_inj: "String_nat m = String_nat n \<Longrightarrow> m = n"
  using String_nat_digits [of m] String_nat_digits [of n] by metis






lemma renderTableBody_fields [simp]:
  "currentData (renderTableBody st data) = currentData st"
  "columnHeaders (renderTableBody st data) = columnHeaders st"
  "config (renderTableBody st data) = config st"
  "nextId (renderTableBody st data) = nextId st"
  "isEditMode (renderTableBody st data) = isEditMode st"
  "selectedRowIndex (renderTableBody st data) = selectedRowIndex st"
  "alerts (renderTableBody st data) = alerts st"
  "downloads (renderTableBody st data) = downloads st"
  "filterInputs (renderTableBody st data) = filterInputs st"
  by (simp_all add: renderTableBody_def)

lemma filterTable_fields [simp]:
  "currentData (filterTable st) = currentData st"
  "columnHeaders (filterTable st) = columnHeaders st"
  "config (filterTable st) = config st"
  "nextId (filterTable st) = nextId st"
  "isEditMode (filterTable st) = isEditMode st"
  "selectedRowIndex (filterTable st) = selectedRowIndex st"
  "alerts (filterTable st) = alerts st"
  "downloads (filterTable st) = downloads st"
  "filterInputs (filterTable st) = filterInputs st"
  by (simp_all add: filterTable_def)

lemma data_ok_renderTableBody [simp]: "data_ok (renderTableBody st data) = data_ok st"
  by (simp add: data_ok_def)








lemma set_contentEditable_fields [simp]:
  "map dataset_originalIndex (set_contentEditable flag rows) = map dataset_originalIndex rows"
  "map listener_index (set_contentEditable flag rows) = map listener_index rows"
  "map (\<lambda>d. length (cells d)) (set_contentEditable flag rows) = map (\<lambda>d. length (cells d)) rows"
  by (simp_all add: set_contentEditable_def comp_def)

lemma cells_length_set_contentEditable:
  "(\<forall>d \<in> set (set_contentEditable flag rows). length (cells d) = n) \<longleftrightarrow>
   (\<forall>d \<in> set rows. length (cells d) = n)"
  by (auto simp: set_contentEditable_def)

lemma tracks_set_contentEditable:
  "tracks (st\<lparr>tableBody := set_contentEditable flag (tableBody st)\<rparr>) js = tracks st js"
  by (simp add: tracks_def cells_length_set_contentEditable)



lemma consistent_alert [simp]: "consistent (alert msg st) = consistent st"
  by (simp add: alert_def consistent_def data_ok_def tracks_def)











lemma length_reconciled [simp]: "length (reconciled st) = length (currentData st)"
  by (simp add: reconciled_def)




lemma downloadDataAsFile_fields [simp]:
  "currentData (downloadDataAsFile data st) = currentData st"
  "columnHeaders (downloadDataAsFile data st) = columnHeaders st"
  "config (downloadDataAsFile data st) = config st"
  "nextId (downloadDataAsFile data st) = nextId st"
  "isEditMode (downloadDataAsFile data st) = isEditMode st"
  "tableBody (downloadDataAsFile data st) = tableBody st"
  "filterInputs (downloadDataAsFile data st) = filterInputs st"
  "selectedRowIndex (downloadDataAsFile data st) = selectedRowIndex st"
  by (simp_all add: downloadDataAsFile_def alert_def Let_def)







section \<open>Saving\<close>





























end
